theory Spec2Isabelle
  imports Complex_Main
begin

section \<open>Numbers\<close>

text \<open>
  The program is TypeScript; every number in it is a JavaScript \<^verbatim>\<open>number\<close>.
  A finite number is modelled as an exact \<^typ>\<open>real\<close>: the rounding of IEEE doubles is
  not part of the model. The three non-finite values appear only where the code can
  meet one, as the result of the caller's cost function.
\<close>

datatype jsnum = Num real | NaN | PosInf | NegInf

text \<open>\<^verbatim>\<open>Math.floor\<close> keeps \<^verbatim>\<open>NaN\<close> and the infinities.\<close>

fun Math_floor :: "jsnum \<Rightarrow> jsnum" where
  "Math_floor (Num r) = Num (of_int \<lfloor>r\<rfloor>)"
| "Math_floor NaN = NaN"
| "Math_floor PosInf = PosInf"
| "Math_floor NegInf = NegInf"

text \<open>A number is falsy when it is \<^verbatim>\<open>0\<close> or \<^verbatim>\<open>NaN\<close>.\<close>

fun truthy :: "jsnum \<Rightarrow> bool" where
  "truthy (Num r) = (r \<noteq> 0)"
| "truthy NaN = False"
| "truthy PosInf = True"
| "truthy NegInf = True"

text \<open>\<^verbatim>\<open>a || b\<close> on numbers.\<close>

definition js_or :: "jsnum \<Rightarrow> jsnum \<Rightarrow> jsnum" where
  "js_or a b = (if truthy a then a else b)"

text \<open>\<^verbatim>\<open>Math.max(a, b)\<close>: \<^verbatim>\<open>NaN\<close> if either argument is \<^verbatim>\<open>NaN\<close>.\<close>

fun Math_max :: "jsnum \<Rightarrow> jsnum \<Rightarrow> jsnum" where
  "Math_max NaN _ = NaN"
| "Math_max _ NaN = NaN"
| "Math_max PosInf _ = PosInf"
| "Math_max _ PosInf = PosInf"
| "Math_max NegInf b = b"
| "Math_max a NegInf = a"
| "Math_max (Num a) (Num b) = Num (max a b)"

section \<open>Data model\<close>

text \<open>An \<^verbatim>\<open>Error\<close> thrown by the code, with its message.\<close>

datatype error = Error string

text \<open>
  \<^verbatim>\<open>Omit<LimitResult, 'now'>\<close>, the decision an algorithm returns. \<^verbatim>\<open>retryAfter\<close> is
  \<^verbatim>\<open>number | undefined\<close>.
\<close>

record result =
  allowed :: bool
  limit :: real
  remaining :: real
  reset :: real
  retryAfter :: "real option"

text \<open>The state object of the sliding window (fields as the code names them).\<close>

record SlidingState =
  windowStart :: real
  count :: real
  prevStart :: real
  prevCount :: real

text \<open>
  The state object of the token bucket. The code's field \<^verbatim>\<open>last\<close> is \<open>last_ms\<close> here
  (\<open>last\<close> is the list function of HOL).
\<close>

record BucketState =
  tokens :: real
  last_ms :: real

text \<open>
  What \<^verbatim>\<open>compute\<close> returns: \<^verbatim>\<open>{ state, result, ttlMs }\<close>, as a triple.
  An algorithm is its \<^verbatim>\<open>compute\<close> function; the display fields \<^verbatim>\<open>name\<close> and
  \<^verbatim>\<open>policy\<close> of the object are read by no code in the repository and are left out.
\<close>

type_synonym 's compute_out = "'s \<times> result \<times> real"

type_synonym 's Algorithm = "'s option \<Rightarrow> real \<Rightarrow> real \<Rightarrow> 's compute_out"

section \<open>Sliding window (two-window approximation)\<close>

text \<open>
  Lines 43 and 44 of \<^verbatim>\<open>compute\<close>: the start of the window that holds \<open>now\<close>, and of the
  window before it.
\<close>

definition curWindowStart :: "real \<Rightarrow> real \<Rightarrow> real" where
  "curWindowStart windowMs now = of_int \<lfloor>now / windowMs\<rfloor> * windowMs"

definition prevWindowStart :: "real \<Rightarrow> real \<Rightarrow> real" where
  "prevWindowStart windowMs now = curWindowStart windowMs now - windowMs"

text \<open>
  Lines 53 to 59: the shift done when the stored window is not the current one. The
  four assignments read the old \<^verbatim>\<open>windowStart\<close> and \<^verbatim>\<open>count\<close> before they overwrite them.
\<close>

definition rollover :: "real \<Rightarrow> SlidingState \<Rightarrow> real \<Rightarrow> SlidingState" where
  "rollover windowMs s now =
    (if windowStart s \<noteq> curWindowStart windowMs now then
       (let contiguous = (windowStart s = prevWindowStart windowMs now) in
          \<lparr>windowStart = curWindowStart windowMs now,
           count = 0,
           prevStart = (if contiguous then windowStart s else prevWindowStart windowMs now),
           prevCount = (if contiguous then count s else 0)\<rparr>)
     else s)"

text \<open>Lines 63 to 65: the weighted count \<^verbatim>\<open>effective\<close> of the updated state.\<close>

definition effective :: "real \<Rightarrow> SlidingState \<Rightarrow> real \<Rightarrow> real" where
  "effective windowMs s now =
    (let overlapMs = windowMs - (now - curWindowStart windowMs now);
         weight = overlapMs / windowMs
     in count s +
        (if prevStart s = prevWindowStart windowMs now then prevCount s * weight else 0))"

text \<open>
  \<^verbatim>\<open>compute(state, cost, now)\<close> of \<^verbatim>\<open>slidingWindow({limit, windowMs})\<close>. The config's
  \<^verbatim>\<open>limit\<close> is the parameter \<open>limit_cfg\<close>. The code mutates the state object in place
  and returns it; the model returns the updated record.
\<close>

definition slidingWindow_compute ::
  "real \<Rightarrow> real \<Rightarrow> SlidingState option \<Rightarrow> real \<Rightarrow> real \<Rightarrow> SlidingState compute_out" where
  "slidingWindow_compute limit_cfg windowMs state cost now =
    (let s0 = (case state of
                 Some st \<Rightarrow> st
               | None \<Rightarrow> \<lparr>windowStart = curWindowStart windowMs now, count = 0,
                          prevStart = prevWindowStart windowMs now, prevCount = 0\<rparr>);
         s1 = rollover windowMs s0 now;
         s = s1\<lparr>count := count s1 + cost\<rparr>;
         is_allowed = (effective windowMs s now \<le> limit_cfg);
         remaining_v = max 0 (of_int \<lfloor>limit_cfg - effective windowMs s now\<rfloor>);
         reset_v = of_int \<lceil>(windowStart s + windowMs) / 1000\<rceil>;
         retry = (if \<not> is_allowed then
                    (let r = (windowStart s + windowMs) - now in Some (if r < 0 then 0 else r))
                  else None);
         ttlMs = max 1000 ((windowStart s + 2 * windowMs) - now)
     in (s,
         \<lparr>allowed = is_allowed, limit = limit_cfg, remaining = remaining_v,
          reset = reset_v, retryAfter = retry\<rparr>,
         ttlMs))"

text \<open>The constructor throws on a non-positive \<^verbatim>\<open>limit\<close> or \<^verbatim>\<open>windowMs\<close>.\<close>

definition slidingWindow :: "real \<Rightarrow> real \<Rightarrow> error + SlidingState Algorithm" where
  "slidingWindow limit_cfg windowMs =
    (if limit_cfg \<le> 0 then Inl (Error ''limit must be > 0'')
     else if windowMs \<le> 0 then Inl (Error ''windowMs must be > 0'')
     else Inr (slidingWindow_compute limit_cfg windowMs))"

section \<open>Token bucket\<close>

text \<open>Lines 19 to 24 of \<^verbatim>\<open>compute\<close>: the refill, done only when the clock moved forward.\<close>

definition refill_step :: "real \<Rightarrow> real \<Rightarrow> BucketState \<Rightarrow> real \<Rightarrow> BucketState" where
  "refill_step capacity refillPerMs s now =
    (if now > last_ms s then
       (let delta = now - last_ms s;
            refill = delta * refillPerMs
        in \<lparr>tokens = min capacity (tokens s + refill), last_ms = now\<rparr>)
     else s)"

text \<open>
  \<^verbatim>\<open>compute(state, cost, now)\<close> of \<^verbatim>\<open>tokenBucket({capacity, refillRatePerSec})\<close>, with
  \<^verbatim>\<open>refillPerMs = refillRatePerSec / 1000\<close> bound by the constructor.
\<close>

definition tokenBucket_compute ::
  "real \<Rightarrow> real \<Rightarrow> BucketState option \<Rightarrow> real \<Rightarrow> real \<Rightarrow> BucketState compute_out" where
  "tokenBucket_compute capacity refillPerMs state cost now =
    (let s0 = (case state of
                 Some st \<Rightarrow> st
               | None \<Rightarrow> \<lparr>tokens = capacity, last_ms = now\<rparr>);
         s1 = refill_step capacity refillPerMs s0 now;
         (s, is_allowed, retry) =
           (if tokens s1 \<ge> cost then (s1\<lparr>tokens := tokens s1 - cost\<rparr>, True, None)
            else
              (let needed = cost - tokens s1 in
                 (s1, False,
                  if refillPerMs > 0 then Some (of_int \<lceil>needed / refillPerMs\<rceil>) else None)));
         remaining_v = max 0 (of_int \<lfloor>tokens s\<rfloor>);
         reset_v = of_int \<lceil>(now + 1000) / 1000\<rceil>;
         ttlMs = max 1000 (of_int \<lceil>(capacity / refillPerMs) + 1000\<rceil>)
     in (s,
         \<lparr>allowed = is_allowed, limit = capacity, remaining = remaining_v,
          reset = reset_v, retryAfter = retry\<rparr>,
         ttlMs))"

definition tokenBucket :: "real \<Rightarrow> real \<Rightarrow> error + BucketState Algorithm" where
  "tokenBucket capacity refillRatePerSec =
    (if capacity \<le> 0 then Inl (Error ''capacity must be > 0'')
     else if refillRatePerSec \<le> 0 then Inl (Error ''refillRatePerSec must be > 0'')
     else Inr (tokenBucket_compute capacity (refillRatePerSec / 1000)))"

section \<open>In-memory store\<close>

text \<open>
  \<^verbatim>\<open>memoryStore()\<close> keeps a \<^verbatim>\<open>Map<string, { state, expiresAt }>\<close>. Every operation reads
  the clock itself (\<^verbatim>\<open>Date.now()\<close>); the reading is the parameter \<open>now\<close> of the model.
  The map holds a reference to the state object, and \<^verbatim>\<open>limit\<close> saves the very object
  \<^verbatim>\<open>compute\<close> mutated, so a value-passing model gives the same results.
\<close>

record 's entry =
  state :: 's
  expiresAt :: real

type_synonym 's memory = "string \<rightharpoonup> 's entry"

text \<open>\<^verbatim>\<open>cleanup(now)\<close> deletes every entry with \<^verbatim>\<open>expiresAt <= now\<close>.\<close>

definition cleanup :: "real \<Rightarrow> 's memory \<Rightarrow> 's memory" where
  "cleanup now m =
    (\<lambda>k. case m k of
           None \<Rightarrow> None
         | Some v \<Rightarrow> if expiresAt v \<le> now then None else Some v)"

definition memory_load :: "string \<Rightarrow> real \<Rightarrow> 's memory \<Rightarrow> 's option \<times> 's memory" where
  "memory_load k now m =
    (let m1 = cleanup now m in
       case m1 k of
         None \<Rightarrow> (None, m1)
       | Some v \<Rightarrow>
           if expiresAt v \<le> now then (None, m1(k := None))
           else (Some (state v), m1))"

definition memory_save :: "string \<Rightarrow> 's \<Rightarrow> real \<Rightarrow> real \<Rightarrow> 's memory \<Rightarrow> 's memory" where
  "memory_save k st ttlMs now m =
    (cleanup now m)(k \<mapsto> \<lparr>state = st, expiresAt = now + ttlMs\<rparr>)"

definition memory_reset :: "string \<Rightarrow> 's memory \<Rightarrow> 's memory" where
  "memory_reset k m = m(k := None)"

section \<open>Orchestrator\<close>

text \<open>
  The \<^verbatim>\<open>Store\<close> interface over a backing state \<open>'m\<close>. An operation may throw (the
  remote store does); the clock reading an operation makes is its \<open>real\<close> argument
  before the backing state. \<^verbatim>\<open>reset\<close> is optional and is \<open>store_reset\<close> here.
\<close>

record ('s, 'm) Store =
  load :: "string \<Rightarrow> real \<Rightarrow> 'm \<Rightarrow> error + ('s option \<times> 'm)"
  save :: "string \<Rightarrow> 's \<Rightarrow> real \<Rightarrow> real \<Rightarrow> 'm \<Rightarrow> error + 'm"
  store_reset :: "(string \<Rightarrow> 'm \<Rightarrow> error + 'm) option"

definition memoryStore :: "('s, 's memory) Store" where
  "memoryStore =
    \<lparr>load = (\<lambda>k now m. Inr (memory_load k now m)),
     save = (\<lambda>k st ttlMs now m. Inr (memory_save k st ttlMs now m)),
     store_reset = Some (\<lambda>k m. Inr (memory_reset k m))\<rparr>"

text \<open>The private fields of class \<^verbatim>\<open>Ratelimit\<close>; \<open>'c\<close> is \<^verbatim>\<open>LimitContext\<close>.\<close>

record ('c, 's, 'm) Ratelimit =
  store :: "('s, 'm) Store"
  algorithm :: "'s Algorithm"
  keyFn :: "'c \<Rightarrow> string"
  namespace :: string
  costFn :: "'c \<Rightarrow> jsnum"

text \<open>
  The constructor: \<^verbatim>\<open>opts.namespace ?? 'default'\<close> and \<^verbatim>\<open>opts.cost ?? (() => 1)\<close>.
\<close>

definition new_Ratelimit ::
  "('s, 'm) Store \<Rightarrow> 's Algorithm \<Rightarrow> ('c \<Rightarrow> string) \<Rightarrow> string option \<Rightarrow> ('c \<Rightarrow> jsnum) option
    \<Rightarrow> ('c, 's, 'm) Ratelimit" where
  "new_Ratelimit opts_store opts_algorithm opts_key opts_namespace opts_cost =
    \<lparr>store = opts_store,
     algorithm = opts_algorithm,
     keyFn = opts_key,
     namespace = (case opts_namespace of Some n \<Rightarrow> n | None \<Rightarrow> ''default''),
     costFn = (case opts_cost of Some f \<Rightarrow> f | None \<Rightarrow> (\<lambda>_. Num 1))\<rparr>"

text \<open>
  Line 21 of \<^verbatim>\<open>limit\<close>: \<^verbatim>\<open>Math.max(0, Math.floor(this.costFn(ctx)) || 1)\<close>, as a function of
  what the cost function returned.
\<close>

definition limit_cost :: "jsnum \<Rightarrow> jsnum" where
  "limit_cost c = Math_max (Num 0) (js_or (Math_floor c) (Num 1))"

text \<open>\<^verbatim>\<open>LimitResult\<close>: the decision with \<^verbatim>\<open>now\<close> (field \<open>now_ms\<close>) added.\<close>

record LimitResult = result +
  now_ms :: real

text \<open>
  \<^verbatim>\<open>limit(ctx)\<close>. The three clock readings are parameters: \<open>now\<close> is the one \<^verbatim>\<open>limit\<close>
  makes, \<open>t_load\<close> and \<open>t_save\<close> are handed to the store operations. The algorithms are
  modelled on finite numbers, so the model gives \<open>None\<close> when line 21 yields
  \<^verbatim>\<open>Infinity\<close>; otherwise it gives the thrown error or the decision and the new
  backing state.
\<close>

definition Ratelimit_limit ::
  "('c, 's, 'm) Ratelimit \<Rightarrow> 'c \<Rightarrow> real \<Rightarrow> real \<Rightarrow> real \<Rightarrow> 'm
    \<Rightarrow> (error + (LimitResult \<times> 'm)) option" where
  "Ratelimit_limit rl ctx now t_load t_save m =
    (let k = namespace rl @ '':'' @ keyFn rl ctx in
       case limit_cost (costFn rl ctx) of
         Num cost \<Rightarrow>
           Some
            (case load (store rl) k t_load m of
               Inl e \<Rightarrow> Inl e
             | Inr (st, m1) \<Rightarrow>
                 (case algorithm rl st cost now of
                    (newState, res, ttlMs) \<Rightarrow>
                      (case save (store rl) k newState ttlMs t_save m1 of
                         Inl e \<Rightarrow> Inl e
                       | Inr m2 \<Rightarrow>
                           Inr (\<lparr>allowed = allowed res, limit = limit res,
                                 remaining = remaining res, reset = reset res,
                                 retryAfter = retryAfter res, now_ms = now\<rparr>, m2))))
       | _ \<Rightarrow> None)"

section \<open>Headers\<close>

text \<open>
  \<^verbatim>\<open>HeadersOptions\<close>: each field may be left out. \<^verbatim>\<open>build(result)\<close> without options
  is \<^verbatim>\<open>build(result, {})\<close>, the record with three \<open>None\<close>.
\<close>

record HeadersOptions =
  standard :: "bool option"
  legacy :: "bool option"
  policy :: "bool option"

text \<open>
  A destructuring default, as in \<^verbatim>\<open>const { standard = true } = opts\<close>: the default is
  taken when the field is left out.
\<close>

definition or_default :: "bool option \<Rightarrow> bool \<Rightarrow> bool" where
  "or_default v d = (case v of Some b \<Rightarrow> b | None \<Rightarrow> d)"

text \<open>
  \<^verbatim>\<open>build(result, opts)\<close>. \<open>str\<close> is JavaScript's \<^verbatim>\<open>String\<close> on numbers. The property
  \<^verbatim>\<open>(result as any).policy\<close> is not a field of \<^verbatim>\<open>LimitResult\<close>; it is the argument
  \<open>result_policy\<close> (\<open>None\<close> when the object has none), and it is truthy when it is a
  non-empty string.
\<close>

definition build ::
  "(real \<Rightarrow> string) \<Rightarrow> LimitResult \<Rightarrow> string option \<Rightarrow> HeadersOptions \<Rightarrow> (string \<rightharpoonup> string)" where
  "build str r result_policy opts =
    (let standard_v = or_default (standard opts) True;
         legacy_v = or_default (legacy opts) False;
         policy_v = or_default (policy opts) False;
         out0 = Map.empty;
         out1 =
           (if standard_v then
              (let h = out0(''RateLimit-Limit'' \<mapsto> str (limit r),
                            ''RateLimit-Remaining'' \<mapsto> str (remaining r),
                            ''RateLimit-Reset'' \<mapsto> str (reset r))
               in case retryAfter r of
                    Some ra \<Rightarrow> h(''Retry-After'' \<mapsto> str (of_int \<lceil>ra / 1000\<rceil>))
                  | None \<Rightarrow> h)
            else out0);
         out2 =
           (if legacy_v then
              (let h = out1(''X-RateLimit-Limit'' \<mapsto> str (limit r),
                            ''X-RateLimit-Remaining'' \<mapsto> str (remaining r),
                            ''X-RateLimit-Reset'' \<mapsto> str (reset r))
               in case retryAfter r of
                    Some ra \<Rightarrow> h(''Retry-After'' \<mapsto> str (of_int \<lceil>ra / 1000\<rceil>))
                  | None \<Rightarrow> h)
            else out1)
     in case result_policy of
          Some p \<Rightarrow> if policy_v \<and> p \<noteq> [] then out2(''RateLimit-Policy'' \<mapsto> p) else out2
        | None \<Rightarrow> out2)"

text \<open>
  Decimal digits of an integer: what \<^verbatim>\<open>String\<close> gives on an integer-valued number of
  magnitude below \<^verbatim>\<open>1e21\<close>. It instantiates \<open>str\<close> in the concrete runs below.
\<close>

fun nat_digits :: "nat \<Rightarrow> string" where
  "nat_digits n =
    (if n < 10 then [''0123456789'' ! n]
     else nat_digits (n div 10) @ [''0123456789'' ! (n mod 10)])"

declare nat_digits.simps [simp del]

definition String_integer :: "real \<Rightarrow> string" where
  "String_integer x =
    (if x < 0 then CHR ''-'' # nat_digits (nat (- \<lfloor>x\<rfloor>)) else nat_digits (nat \<lfloor>x\<rfloor>))"

section \<open>State invariants\<close>

text \<open>
  The invariant of a stored token bucket state (an absent state has none to keep):
  \<open>tokens\<close> lies between 0 and the capacity.
\<close>

definition bucket_inv :: "real \<Rightarrow> BucketState option \<Rightarrow> bool" where
  "bucket_inv capacity st =
    (case st of None \<Rightarrow> True | Some s \<Rightarrow> 0 \<le> tokens s \<and> tokens s \<le> capacity)"

text \<open>The invariant of a stored sliding window state: both counters are non-negative.\<close>

definition sliding_inv :: "SlidingState option \<Rightarrow> bool" where
  "sliding_inv st =
    (case st of None \<Rightarrow> True | Some s \<Rightarrow> 0 \<le> count s \<and> 0 \<le> prevCount s)"

section \<open>Runs of the limiter\<close>

text \<open>
  Sequential calls of \<^verbatim>\<open>limit\<close>, each awaited before the next as the tests do. A request
  is its context and the clock reading of the call; the store operations of the call see
  the same reading. The run gives the decisions in order and the final backing state,
  and \<open>None\<close> if a call throws or its cost is not finite.
\<close>

fun limit_run ::
  "('c, 's, 'm) Ratelimit \<Rightarrow> ('c \<times> real) list \<Rightarrow> 'm \<Rightarrow> (LimitResult list \<times> 'm) option" where
  "limit_run rl [] m = Some ([], m)"
| "limit_run rl ((ctx, now) # reqs) m =
    (case Ratelimit_limit rl ctx now now now m of
       Some (Inr (r, m1)) \<Rightarrow>
         (case limit_run rl reqs m1 of
            Some (rs, m2) \<Rightarrow> Some (r # rs, m2)
          | None \<Rightarrow> None)
     | _ \<Rightarrow> None)"

text \<open>
  The limiter the tests build: the memory store, \<^verbatim>\<open>key: () => 'k'\<close>, the default
  namespace, and the cost function handed in (or none, for the default cost).
\<close>

definition demo_limiter ::
  "'s Algorithm \<Rightarrow> (unit \<Rightarrow> jsnum) option \<Rightarrow> (unit, 's, 's memory) Ratelimit" where
  "demo_limiter alg opts_cost = new_Ratelimit memoryStore alg (\<lambda>_. ''k'') None opts_cost"

section \<open>Basic facts\<close>

lemma tokenBucket_Inr:
  "tokenBucket capacity refillRatePerSec = Inr alg \<longleftrightarrow>
     0 < capacity \<and> 0 < refillRatePerSec
     \<and> alg = tokenBucket_compute capacity (refillRatePerSec / 1000)"
  by (auto simp: tokenBucket_def)

lemma slidingWindow_Inr:
  "slidingWindow limit_cfg windowMs = Inr alg \<longleftrightarrow>
     0 < limit_cfg \<and> 0 < windowMs \<and> alg = slidingWindow_compute limit_cfg windowMs"
  by (auto simp: slidingWindow_def)

lemma refill_step_bounds:
  assumes "0 < capacity" "0 < refillPerMs" "0 \<le> tokens s" "tokens s \<le> capacity"
  shows "0 \<le> tokens (refill_step capacity refillPerMs s now)
       \<and> tokens (refill_step capacity refillPerMs s now) \<le> capacity"
proof (cases "now > last_ms s")
  case True
  then have "0 \<le> (now - last_ms s) * refillPerMs"
    using assms(2) by simp
  with True assms show ?thesis
    by (simp add: refill_step_def Let_def)
next
  case False
  with assms show ?thesis
    by (simp add: refill_step_def)
qed


text \<open>The state each algorithm returns, without the decision.\<close>

lemma tokenBucket_state:
  "fst (tokenBucket_compute capacity refillPerMs st cost now) =
     (let s1 = refill_step capacity refillPerMs
                 (case st of Some s \<Rightarrow> s | None \<Rightarrow> \<lparr>tokens = capacity, last_ms = now\<rparr>) now
      in if cost \<le> tokens s1 then s1\<lparr>tokens := tokens s1 - cost\<rparr> else s1)"
  by (simp add: tokenBucket_compute_def Let_def)

lemma sliding_state:
  "fst (slidingWindow_compute limit_cfg windowMs st cost now) =
     (let s1 = rollover windowMs
                 (case st of
                    Some s \<Rightarrow> s
                  | None \<Rightarrow> \<lparr>windowStart = curWindowStart windowMs now, count = 0,
                             prevStart = prevWindowStart windowMs now, prevCount = 0\<rparr>) now
      in s1\<lparr>count := count s1 + cost\<rparr>)"
  by (simp add: slidingWindow_compute_def Let_def)

lemma bucket_inv_step:
  assumes "0 < capacity" "0 < refillPerMs" "0 \<le> cost" "bucket_inv capacity st"
  shows "bucket_inv capacity (Some (fst (tokenBucket_compute capacity refillPerMs st cost now)))"
proof -
  define s0 where
    "s0 = (case st of Some s \<Rightarrow> s | None \<Rightarrow> \<lparr>tokens = capacity, last_ms = now\<rparr>)"
  have "0 \<le> tokens s0 \<and> tokens s0 \<le> capacity"
    using assms(1,4) by (cases st) (simp_all add: s0_def bucket_inv_def)
  then have b: "0 \<le> tokens (refill_step capacity refillPerMs s0 now)
              \<and> tokens (refill_step capacity refillPerMs s0 now) \<le> capacity"
    using refill_step_bounds[OF assms(1,2)] by blast
  show ?thesis
    using b assms(3) by (simp add: tokenBucket_state bucket_inv_def Let_def flip: s0_def)
qed

lemma sliding_inv_step:
  assumes "0 \<le> cost" "sliding_inv st"
  shows "sliding_inv (Some (fst (slidingWindow_compute limit_cfg windowMs st cost now)))"
  using assms by (cases st) (simp_all add: sliding_state sliding_inv_def rollover_def Let_def)

lemma tokenBucket_decision:
  "snd (tokenBucket_compute capacity refillPerMs st cost now) =
     (let s1 = refill_step capacity refillPerMs
                 (case st of Some s \<Rightarrow> s | None \<Rightarrow> \<lparr>tokens = capacity, last_ms = now\<rparr>) now;
          s' = (if cost \<le> tokens s1 then s1\<lparr>tokens := tokens s1 - cost\<rparr> else s1)
      in (\<lparr>allowed = (cost \<le> tokens s1), limit = capacity,
           remaining = max 0 (of_int \<lfloor>tokens s'\<rfloor>),
           reset = of_int \<lceil>(now + 1000) / 1000\<rceil>,
           retryAfter = (if cost \<le> tokens s1 then None
                         else if refillPerMs > 0 then Some (of_int \<lceil>(cost - tokens s1) / refillPerMs\<rceil>)
                         else None)\<rparr>,
          max 1000 (of_int \<lceil>(capacity / refillPerMs) + 1000\<rceil>)))"
  by (simp add: tokenBucket_compute_def Let_def)

lemma curWindowStart_le:
  assumes "0 < windowMs"
  shows "curWindowStart windowMs now \<le> now"
proof -
  have "of_int \<lfloor>now / windowMs\<rfloor> \<le> now / windowMs"
    by (rule of_int_floor_le)
  then have "of_int \<lfloor>now / windowMs\<rfloor> * windowMs \<le> now"
    using assms by (simp only: pos_le_divide_eq)
  then show ?thesis
    by (simp add: curWindowStart_def)
qed

lemma curWindowStart_shift:
  assumes "0 < windowMs"
  shows "curWindowStart windowMs (now + of_int n * windowMs) = curWindowStart windowMs now + of_int n * windowMs"
proof -
  have "(now + of_int n * windowMs) / windowMs = now / windowMs + of_int n"
    using assms by (simp add: add_divide_distrib)
  then show ?thesis
    by (simp add: curWindowStart_def algebra_simps)
qed

lemma curWindowStart_5000: "curWindowStart 1000 (t + 5000) = curWindowStart 1000 t + 5000"
  using curWindowStart_shift [of 1000 t 5] by simp

lemma sliding_decision:
  "fst (snd (slidingWindow_compute limit_cfg windowMs st cost now)) =
     (let s = fst (slidingWindow_compute limit_cfg windowMs st cost now);
          e = effective windowMs s now
      in \<lparr>allowed = (e \<le> limit_cfg), limit = limit_cfg,
          remaining = max 0 (of_int \<lfloor>limit_cfg - e\<rfloor>),
          reset = of_int \<lceil>(windowStart s + windowMs) / 1000\<rceil>,
          retryAfter = (if e \<le> limit_cfg then None
                        else Some (if windowStart s + windowMs - now < 0 then 0
                                   else windowStart s + windowMs - now))\<rparr>)"
  by (simp add: slidingWindow_compute_def Let_def)

lemma sliding_ttl:
  "snd (snd (slidingWindow_compute limit_cfg windowMs st cost now)) =
     max 1000 (windowStart (fst (slidingWindow_compute limit_cfg windowMs st cost now)) + 2 * windowMs - now)"
  by (simp add: slidingWindow_compute_def Let_def)


lemma memory_load_fresh:
  assumes "m k = Some v" "now < expiresAt v"
  shows "memory_load k now m = (Some (state v), cleanup now m)"
  using assms by (simp add: memory_load_def cleanup_def Let_def)

lemma memory_load_expired:
  assumes "m k = Some v" "expiresAt v \<le> now"
  shows "memory_load k now m = (None, cleanup now m)"
  using assms by (simp add: memory_load_def cleanup_def Let_def)

lemma memory_load_absent:
  assumes "m k = None"
  shows "memory_load k now m = (None, cleanup now m)"
  using assms by (simp add: memory_load_def cleanup_def Let_def)

lemma memory_save_lookup:
  "memory_save k st ttlMs now m k = Some \<lparr>state = st, expiresAt = now + ttlMs\<rparr>"
  by (simp add: memory_save_def)

text \<open>One call of \<^verbatim>\<open>limit\<close> over the memory store, when line 21 gives a finite cost.\<close>

lemma limit_memory_step:
  assumes "limit_cost (costFn rl ctx) = Num c" "store rl = memoryStore"
  shows "Ratelimit_limit rl ctx now t_load t_save m =
    (let k = namespace rl @ '':'' @ keyFn rl ctx;
         (st, m1) = memory_load k t_load m;
         (newState, res, ttlMs) = algorithm rl st c now
     in Some (Inr (\<lparr>allowed = allowed res, limit = limit res,
                     remaining = remaining res, reset = reset res,
                     retryAfter = retryAfter res, now_ms = now\<rparr>,
                   memory_save k newState ttlMs t_save m1)))"
  using assms
  by (simp add: Ratelimit_limit_def memoryStore_def Let_def split: prod.splits)

lemma limit_cost_cases:
  "limit_cost (Num r) = (if \<lfloor>r\<rfloor> = 0 then Num 1 else Num (max 0 (of_int \<lfloor>r\<rfloor>)))"
  "limit_cost NaN = Num 1"
  "limit_cost PosInf = PosInf"
  "limit_cost NegInf = Num 0"
  by (simp_all add: limit_cost_def js_or_def)

lemma demo_limiter_fields:
  "store (demo_limiter alg c) = memoryStore"
  "algorithm (demo_limiter alg c) = alg"
  "keyFn (demo_limiter alg c) u = ''k''"
  "namespace (demo_limiter alg c) = ''default''"
  "costFn (demo_limiter alg None) u = Num 1"
  "costFn (demo_limiter alg (Some f)) u = f u"
  by (simp_all add: demo_limiter_def new_Ratelimit_def)

lemma memory_load_none:
  assumes "case m k of None \<Rightarrow> True | Some v \<Rightarrow> expiresAt v \<le> now"
  shows "memory_load k now m = (None, cleanup now m)"
  using assms by (simp add: memory_load_def cleanup_def Let_def split: option.splits)

lemma demo_limiter_first:
  assumes "0 < windowMs"
    and "case m ''default:k'' of None \<Rightarrow> True | Some v \<Rightarrow> expiresAt v \<le> t"
  shows "\<exists>r m'. Ratelimit_limit (demo_limiter (slidingWindow_compute limit_cfg windowMs) None) () t t t m
            = Some (Inr (r, m'))
          \<and> allowed r = (1 \<le> limit_cfg)
          \<and> remaining r = max 0 (of_int \<lfloor>limit_cfg - 1\<rfloor>)
          \<and> (\<exists>e. m' ''default:k'' =
                Some \<lparr>state = \<lparr>windowStart = curWindowStart windowMs t, count = 1,
                                prevStart = prevWindowStart windowMs t, prevCount = 0\<rparr>,
                      expiresAt = e\<rparr>
               \<and> t < e \<and> e \<le> t + max 1000 (2 * windowMs))"
proof -
  have c: "curWindowStart windowMs t \<le> t"
    using assms(1) by (rule curWindowStart_le)
  have e1: "0 < max 1000 x" for x :: real
    by simp
  have e2: "curWindowStart windowMs t + 2 * windowMs - t \<le> max 1000 (2 * windowMs)"
    using c by simp
  have rl: "limit_cost (costFn (demo_limiter (slidingWindow_compute limit_cfg windowMs) None) ()) = Num 1"
    "store (demo_limiter (slidingWindow_compute limit_cfg windowMs) None) = memoryStore"
    by (simp_all add: demo_limiter_fields limit_cost_cases)
  show ?thesis
    using e1 e2
    by (simp add: limit_memory_step [OF rl] Let_def memory_load_none [where m = m and k = "''default:k''" and now = t, OF assms(2)] memory_save_lookup
          demo_limiter_fields sliding_state sliding_decision sliding_ttl
          rollover_def effective_def split_beta)
qed



lemma gap_states:
  assumes "windowStart s \<noteq> curWindowStart windowMs now"
    and "windowStart s \<noteq> prevWindowStart windowMs now"
  shows "fst (slidingWindow_compute limit_cfg windowMs (Some s) cost now) =
           \<lparr>windowStart = curWindowStart windowMs now, count = cost,
            prevStart = prevWindowStart windowMs now, prevCount = 0\<rparr>"
  using assms by (simp add: sliding_state rollover_def Let_def)

lemma gap_two_requests:
  "case slidingWindow_compute 5 1000 None 1 t0 of
     (s1, r1, ttl1) \<Rightarrow>
       (case slidingWindow_compute 5 1000 (Some s1) 1 (t0 + 5000) of
          (s2, r2, ttl2) \<Rightarrow>
            allowed r2 \<and> remaining r2 = 4 \<and> prevCount s2 = 0 \<and> count s2 = 1)"
  by (simp add: split_beta sliding_decision sliding_state rollover_def effective_def
        prevWindowStart_def curWindowStart_5000 Let_def)

lemma gap_two_limits:
  "\<exists>rs m. limit_run (demo_limiter (slidingWindow_compute 5 1000) None) [((), t0), ((), t0 + 5000)] Map.empty
             = Some (rs, m)
         \<and> map allowed rs = [True, True] \<and> map remaining rs = [4, 4]"
proof -
  let ?rl = "demo_limiter (slidingWindow_compute 5 1000) None"
  obtain r1 m1 e1 where
    1: "Ratelimit_limit ?rl () t0 t0 t0 Map.empty = Some (Inr (r1, m1))"
      "allowed r1" "remaining r1 = 4"
      "m1 ''default:k'' = Some \<lparr>state = \<lparr>windowStart = curWindowStart 1000 t0, count = 1,
                                prevStart = prevWindowStart 1000 t0, prevCount = 0\<rparr>, expiresAt = e1\<rparr>"
      "e1 \<le> t0 + max 1000 (2 * 1000)"
    using demo_limiter_first [where windowMs = 1000 and m = Map.empty and t = t0 and limit_cfg = 5] by auto
  from 1(4,5) have expired: "case m1 ''default:k'' of None \<Rightarrow> True | Some v \<Rightarrow> expiresAt v \<le> t0 + 5000"
    by simp
  obtain r2 m2 where
    2: "Ratelimit_limit ?rl () (t0 + 5000) (t0 + 5000) (t0 + 5000) m1 = Some (Inr (r2, m2))"
      "allowed r2" "remaining r2 = 4"
    using demo_limiter_first [where windowMs = 1000 and m = m1 and t = "t0 + 5000" and limit_cfg = 5, OF _ expired] by auto
  have "limit_run ?rl [((), t0), ((), t0 + 5000)] Map.empty = Some ([r1, r2], m2)"
    by (simp add: 1(1) 2(1))
  then show ?thesis
    using 1(2,3) 2(2,3) by simp
qed

lemma nat_digits_small: "n < 10 \<Longrightarrow> nat_digits n = [''0123456789'' ! n]"
  by (simp add: nat_digits.simps)

lemma nat_digits_large:
  "10 \<le> n \<Longrightarrow> nat_digits n = nat_digits (n div 10) @ [''0123456789'' ! (n mod 10)]"
  by (subst nat_digits.simps) simp

lemmas String_integer_eval = String_integer_def nat_digits_small nat_digits_large

lemma build_standard_off:
  assumes "\<not> or_default (standard opts) True"
  shows "build str r pol opts ''RateLimit-Limit'' = None"
    "build str r pol opts ''RateLimit-Remaining'' = None"
    "build str r pol opts ''RateLimit-Reset'' = None"
  using assms by (simp_all add: build_def Let_def split: option.splits)

lemma build_legacy_off:
  assumes "\<not> or_default (legacy opts) False"
  shows "build str r pol opts ''X-RateLimit-Limit'' = None"
    "build str r pol opts ''X-RateLimit-Remaining'' = None"
    "build str r pol opts ''X-RateLimit-Reset'' = None"
  using assms by (simp_all add: build_def Let_def split: option.splits)

lemma build_policy_off:
  assumes "\<not> or_default (policy opts) False"
  shows "build str r pol opts ''RateLimit-Policy'' = None"
  using assms by (simp_all add: build_def Let_def split: option.splits)

lemma build_retry_off:
  assumes "\<not> or_default (standard opts) True" "\<not> or_default (legacy opts) False"
  shows "build str r pol opts ''Retry-After'' = None"
  using assms by (simp_all add: build_def Let_def split: option.splits)

lemma build_all_off:
  assumes "\<not> or_default (standard opts) True" "\<not> or_default (legacy opts) False"
    "\<not> or_default (policy opts) False"
  shows "build str r pol opts = Map.empty"
  using assms by (simp_all add: build_def Let_def split: option.splits)

lemma build_retry_on:
  assumes "or_default (standard opts) True \<or> or_default (legacy opts) False"
  shows "build str r pol opts ''Retry-After''
        = map_option (\<lambda>ra. str (of_int \<lceil>ra / 1000\<rceil>)) (retryAfter r)"
  using assms by (auto simp add: build_def Let_def split: option.splits)

lemma build_standard_on:
  assumes "or_default (standard opts) True"
  shows "build str r pol opts ''RateLimit-Limit'' = Some (str (limit r))"
    "build str r pol opts ''RateLimit-Remaining'' = Some (str (remaining r))"
    "build str r pol opts ''RateLimit-Reset'' = Some (str (reset r))"
  using assms by (simp_all add: build_def Let_def split: option.splits)

lemma token_bucket_no_backward_refill:
  assumes "now \<le> last_ms s"
  shows "refill_step capacity refillPerMs s now = s"
    and "fst (tokenBucket_compute capacity refillPerMs (Some s) cost now) =
           (if cost \<le> tokens s then s\<lparr>tokens := tokens s - cost\<rparr> else s)"
    and "allowed (fst (snd (tokenBucket_compute capacity refillPerMs (Some s) cost now)))
           \<longleftrightarrow> cost \<le> tokens s"
  using assms by (simp_all add: refill_step_def tokenBucket_state tokenBucket_decision Let_def)

lemma sliding_same_window_no_shift:
  assumes "windowStart s = curWindowStart windowMs now"
  shows "rollover windowMs s now = s"
  using assms by (simp add: rollover_def)

lemma limit_demo_sliding:
  "Ratelimit_limit (demo_limiter (slidingWindow_compute limit_cfg windowMs) None) () now now now m =
    (case memory_load ''default:k'' now m of
       (st, m1) \<Rightarrow>
         (case slidingWindow_compute limit_cfg windowMs st 1 now of
            (newState, res, ttlMs) \<Rightarrow>
              Some (Inr (\<lparr>allowed = allowed res, limit = limit res,
                     remaining = remaining res, reset = reset res,
                     retryAfter = retryAfter res, now_ms = now\<rparr>,
                   memory_save ''default:k'' newState ttlMs now m1))))"
  by (simp add: limit_memory_step [where c = 1] demo_limiter_fields limit_cost_cases Let_def)

lemma memory_load_empty: "memory_load k now Map.empty = (None, Map.empty)"
  by (simp add: memory_load_def cleanup_def)

lemma memory_load_single:
  "now < expiresAt v \<Longrightarrow> memory_load k now [k \<mapsto> v] = (Some (state v), [k \<mapsto> v])"
  by (auto simp: memory_load_def cleanup_def Let_def)

lemma memory_save_empty:
  "memory_save k st ttlMs now Map.empty = [k \<mapsto> \<lparr>state = st, expiresAt = now + ttlMs\<rparr>]"
  by (simp add: memory_save_def cleanup_def)

lemma memory_save_single:
  "memory_save k st ttlMs now [k \<mapsto> v] = [k \<mapsto> \<lparr>state = st, expiresAt = now + ttlMs\<rparr>]"
  by (auto simp: memory_save_def cleanup_def)

section \<open>Claims\<close>

text \<open>
  C1. The claim: the cost handed to the algorithm is \<open>max(0, floor(costFn(context)))\<close>.
  The code at a cost function that returns 0: line 21 turns the falsy \<open>floor(0) = 0\<close> into
  1, so the request is charged one unit. A limiter over a token bucket of capacity 10
  answers \<open>remaining = 9\<close> and stores 9 tokens, where a cost function returning \<open>-5\<close> gives
  cost 0 and \<open>remaining = 10\<close>.
\<close>

theorem zero_cost_is_charged_one:
  "limit_cost (Num 0) = Num 1
   \<and> (case tokenBucket 10 1 of
         Inl e \<Rightarrow> False
       | Inr alg \<Rightarrow>
           (case Ratelimit_limit (demo_limiter alg (Some (\<lambda>_. Num 0))) () 1000 1000 1000 Map.empty of
              Some (Inr (r, m)) \<Rightarrow>
                remaining r = 9
                \<and> map_option (\<lambda>e. tokens (state e)) (m ''default:k'') = Some 9
            | _ \<Rightarrow> False)
           \<and> (case Ratelimit_limit (demo_limiter alg (Some (\<lambda>_. Num (- 5)))) () 1000 1000 1000 Map.empty of
              Some (Inr (r, m)) \<Rightarrow>
                remaining r = 10
                \<and> map_option (\<lambda>e. tokens (state e)) (m ''default:k'') = Some 10
            | _ \<Rightarrow> False))"
  by (simp add: tokenBucket_def limit_cost_cases limit_memory_step [where c = 1]
        limit_memory_step [where c = 0] demo_limiter_fields memory_load_absent
        memory_save_lookup tokenBucket_compute_def refill_step_def Let_def)

text \<open>
  C2. The claim: a time that is not ahead of what the state accounted for brings no
  refill, no decay and no more capacity. The code of the sliding window at a clock one
  millisecond behind the stored window: three requests of cost 1 at \<open>now = 5000\<close> leave
  \<open>count = 3\<close> of limit 3 in the window starting at 5000. At \<open>now = 5000\<close> a fourth
  request is denied. At \<open>now = 4999\<close> the earlier window is taken for a rollover: the
  count is reset, the request is allowed and \<open>remaining = 2\<close>. Through \<^verbatim>\<open>limit\<close> and the
  memory store, requests at 5000, 5000, 5000 and 4999 are all allowed.
\<close>

theorem clock_step_back_resets_window:
  "slidingWindow 3 1000 = Inr (slidingWindow_compute 3 1000)
   \<and> slidingWindow_compute 3 1000 None 1 5000
       = (\<lparr>windowStart = 5000, count = 1, prevStart = 4000, prevCount = 0\<rparr>,
          \<lparr>allowed = True, limit = 3, remaining = 2, reset = 6, retryAfter = None\<rparr>,
          2000)
   \<and> slidingWindow_compute 3 1000
        (Some \<lparr>windowStart = 5000, count = 1, prevStart = 4000, prevCount = 0\<rparr>) 1 5000
       = (\<lparr>windowStart = 5000, count = 2, prevStart = 4000, prevCount = 0\<rparr>,
          \<lparr>allowed = True, limit = 3, remaining = 1, reset = 6, retryAfter = None\<rparr>,
          2000)
   \<and> slidingWindow_compute 3 1000
        (Some \<lparr>windowStart = 5000, count = 2, prevStart = 4000, prevCount = 0\<rparr>) 1 5000
       = (\<lparr>windowStart = 5000, count = 3, prevStart = 4000, prevCount = 0\<rparr>,
          \<lparr>allowed = True, limit = 3, remaining = 0, reset = 6, retryAfter = None\<rparr>,
          2000)
   \<and> slidingWindow_compute 3 1000
        (Some \<lparr>windowStart = 5000, count = 3, prevStart = 4000, prevCount = 0\<rparr>) 1 5000
       = (\<lparr>windowStart = 5000, count = 4, prevStart = 4000, prevCount = 0\<rparr>,
          \<lparr>allowed = False, limit = 3, remaining = 0, reset = 6, retryAfter = Some 1000\<rparr>,
          2000)
   \<and> slidingWindow_compute 3 1000
        (Some \<lparr>windowStart = 5000, count = 3, prevStart = 4000, prevCount = 0\<rparr>) 1 4999
       = (\<lparr>windowStart = 4000, count = 1, prevStart = 3000, prevCount = 0\<rparr>,
          \<lparr>allowed = True, limit = 3, remaining = 2, reset = 5, retryAfter = None\<rparr>,
          1001)
   \<and> map_option (map allowed \<circ> fst)
        (limit_run (demo_limiter (slidingWindow_compute 3 1000) None)
           [((), 5000), ((), 5000), ((), 5000), ((), 4999)] Map.empty)
       = Some [True, True, True, True]"
proof -
  note ev = slidingWindow_compute_def rollover_def effective_def curWindowStart_def
    prevWindowStart_def Let_def
  have c0: "slidingWindow_compute 3 1000 None 1 5000
       = (\<lparr>windowStart = 5000, count = 1, prevStart = 4000, prevCount = 0\<rparr>,
          \<lparr>allowed = True, limit = 3, remaining = 2, reset = 6, retryAfter = None\<rparr>,
          2000)"
    by (simp add: ev)
  have c1: "slidingWindow_compute 3 1000
        (Some \<lparr>windowStart = 5000, count = 1, prevStart = 4000, prevCount = 0\<rparr>) 1 5000
       = (\<lparr>windowStart = 5000, count = 2, prevStart = 4000, prevCount = 0\<rparr>,
          \<lparr>allowed = True, limit = 3, remaining = 1, reset = 6, retryAfter = None\<rparr>,
          2000)"
    by (simp add: ev)
  have c2: "slidingWindow_compute 3 1000
        (Some \<lparr>windowStart = 5000, count = 2, prevStart = 4000, prevCount = 0\<rparr>) 1 5000
       = (\<lparr>windowStart = 5000, count = 3, prevStart = 4000, prevCount = 0\<rparr>,
          \<lparr>allowed = True, limit = 3, remaining = 0, reset = 6, retryAfter = None\<rparr>,
          2000)"
    by (simp add: ev)
  have c3: "slidingWindow_compute 3 1000
        (Some \<lparr>windowStart = 5000, count = 3, prevStart = 4000, prevCount = 0\<rparr>) 1 5000
       = (\<lparr>windowStart = 5000, count = 4, prevStart = 4000, prevCount = 0\<rparr>,
          \<lparr>allowed = False, limit = 3, remaining = 0, reset = 6, retryAfter = Some 1000\<rparr>,
          2000)"
    by (simp add: ev)
  have c4: "slidingWindow_compute 3 1000
        (Some \<lparr>windowStart = 5000, count = 3, prevStart = 4000, prevCount = 0\<rparr>) 1 4999
       = (\<lparr>windowStart = 4000, count = 1, prevStart = 3000, prevCount = 0\<rparr>,
          \<lparr>allowed = True, limit = 3, remaining = 2, reset = 5, retryAfter = None\<rparr>,
          1001)"
    by (simp add: ev)
  have run: "map_option (map allowed \<circ> fst)
        (limit_run (demo_limiter (slidingWindow_compute 3 1000) None)
           [((), 5000), ((), 5000), ((), 5000), ((), 4999)] Map.empty)
       = Some [True, True, True, True]"
    by (simp add: limit_demo_sliding memory_load_empty memory_load_single memory_save_empty
          memory_save_single c0 c1 c2 c4)
  have h: "slidingWindow 3 1000 = Inr (slidingWindow_compute 3 1000)"
    by (simp add: slidingWindow_def)
  from h c0 c1 c2 c3 c4 run show ?thesis
    by (intro conjI)
qed

text \<open>
  C3. Every \<^verbatim>\<open>compute\<close> call with a non-negative cost keeps the state invariant. For an
  algorithm that \<open>tokenBucket\<close> constructed, a prior state that is absent or has its
  tokens within \<open>[0, capacity]\<close> gives a next state with tokens within \<open>[0, capacity]\<close>,
  whatever the time elapsed. For an algorithm that \<open>slidingWindow\<close> constructed, a prior
  state that is absent or has non-negative \<open>count\<close> and \<open>prevCount\<close> gives a next state
  with non-negative \<open>count\<close> and \<open>prevCount\<close>.
\<close>

theorem state_invariant_preserved:
  assumes "0 \<le> cost"
  shows "(tokenBucket capacity refillRatePerSec = Inr tb \<and> bucket_inv capacity bst
            \<longrightarrow> bucket_inv capacity (Some (fst (tb bst cost now))))
       \<and> (slidingWindow limit_cfg windowMs = Inr sw \<and> sliding_inv sst
            \<longrightarrow> sliding_inv (Some (fst (sw sst cost now))))"
  using assms
  by (auto simp: tokenBucket_Inr slidingWindow_Inr intro: bucket_inv_step sliding_inv_step)

theorem state_invariant_preserved_witness:
  "(0::real) \<le> 3
   \<and> tokenBucket 10 1 = Inr (tokenBucket_compute 10 (1 / 1000))
   \<and> bucket_inv 10 (Some \<lparr>tokens = 4, last_ms = 0\<rparr>)
   \<and> fst (tokenBucket_compute 10 (1 / 1000) (Some \<lparr>tokens = 4, last_ms = 0\<rparr>) 3 2000)
        = \<lparr>tokens = 3, last_ms = 2000\<rparr>
   \<and> bucket_inv 10
        (Some (fst (tokenBucket_compute 10 (1 / 1000) (Some \<lparr>tokens = 4, last_ms = 0\<rparr>) 3 2000)))
   \<and> slidingWindow 5 1000 = Inr (slidingWindow_compute 5 1000)
   \<and> sliding_inv (Some \<lparr>windowStart = 1000, count = 2, prevStart = 0, prevCount = 1\<rparr>)
   \<and> fst (slidingWindow_compute 5 1000
             (Some \<lparr>windowStart = 1000, count = 2, prevStart = 0, prevCount = 1\<rparr>) 3 2000)
        = \<lparr>windowStart = 2000, count = 3, prevStart = 1000, prevCount = 2\<rparr>
   \<and> sliding_inv
        (Some (fst (slidingWindow_compute 5 1000
                     (Some \<lparr>windowStart = 1000, count = 2, prevStart = 0, prevCount = 1\<rparr>) 3 2000)))"
  using state_invariant_preserved
          [of 3 10 1 "tokenBucket_compute 10 (1 / 1000)" "Some \<lparr>tokens = 4, last_ms = 0\<rparr>" 2000
              5 1000 "slidingWindow_compute 5 1000"
              "Some \<lparr>windowStart = 1000, count = 2, prevStart = 0, prevCount = 1\<rparr>"]
  by (simp add: tokenBucket_def slidingWindow_def bucket_inv_def sliding_inv_def
        tokenBucket_state sliding_state refill_step_def rollover_def curWindowStart_def
        prevWindowStart_def Let_def)








text \<open>
  C7. A window that is not contiguous carries no weight. For an algorithm that
  \<open>slidingWindow\<close> constructed and a stored state whose \<open>windowStart\<close> is neither the
  current window nor the one before it, the rollover sets \<open>prevCount\<close> to 0, the effective
  count is just \<open>cost\<close>, and the decision depends on \<open>cost\<close> and the limit only. With limit 5
  and a window of 1000 ms, a request at \<open>t0\<close> and then one at \<open>t0 + 5000\<close> give
  \<open>allowed\<close> with \<open>remaining = 4\<close> for the second, both when \<^verbatim>\<open>compute\<close> is handed the
  state the first request left and through \<^verbatim>\<open>limit\<close> with the memory store.
\<close>

theorem non_contiguous_window_carries_nothing:
  assumes "slidingWindow limit_cfg windowMs = Inr sw"
    and "windowStart s \<noteq> curWindowStart windowMs now"
    and "windowStart s \<noteq> prevWindowStart windowMs now"
  shows "(case sw (Some s) cost now of
            (s', res, ttlMs) \<Rightarrow>
              prevCount s' = 0 \<and> count s' = cost \<and> effective windowMs s' now = cost
              \<and> (allowed res \<longleftrightarrow> cost \<le> limit_cfg)
              \<and> remaining res = max 0 (of_int \<lfloor>limit_cfg - cost\<rfloor>))
       \<and> (\<forall>t0. case slidingWindow 5 1000 of
                  Inl e \<Rightarrow> False
                | Inr alg \<Rightarrow>
                    (case alg None 1 t0 of
                       (s1, r1, ttl1) \<Rightarrow>
                         (case alg (Some s1) 1 (t0 + 5000) of
                            (s2, r2, ttl2) \<Rightarrow>
                              allowed r2 \<and> remaining r2 = 4 \<and> prevCount s2 = 0 \<and> count s2 = 1))
                    \<and> (\<exists>rs m. limit_run (demo_limiter alg None) [((), t0), ((), t0 + 5000)] Map.empty
                                 = Some (rs, m)
                               \<and> map allowed rs = [True, True] \<and> map remaining rs = [4, 4]))"
proof -
  from assms(1) have sw: "sw = slidingWindow_compute limit_cfg windowMs"
    by (simp add: slidingWindow_Inr)
  have general: "case sw (Some s) cost now of
            (s', res, ttlMs) \<Rightarrow>
              prevCount s' = 0 \<and> count s' = cost \<and> effective windowMs s' now = cost
              \<and> (allowed res \<longleftrightarrow> cost \<le> limit_cfg)
              \<and> remaining res = max 0 (of_int \<lfloor>limit_cfg - cost\<rfloor>)"
    unfolding sw
    by (simp add: split_beta sliding_decision gap_states [OF assms(2,3)] effective_def Let_def)
  have h: "slidingWindow 5 1000 = Inr (slidingWindow_compute 5 1000)"
    by (simp add: slidingWindow_def)
  have scenario: "\<forall>t0. case slidingWindow 5 1000 of
                  Inl e \<Rightarrow> False
                | Inr alg \<Rightarrow>
                    (case alg None 1 t0 of
                       (s1, r1, ttl1) \<Rightarrow>
                         (case alg (Some s1) 1 (t0 + 5000) of
                            (s2, r2, ttl2) \<Rightarrow>
                              allowed r2 \<and> remaining r2 = 4 \<and> prevCount s2 = 0 \<and> count s2 = 1))
                    \<and> (\<exists>rs m. limit_run (demo_limiter alg None) [((), t0), ((), t0 + 5000)] Map.empty
                                 = Some (rs, m)
                               \<and> map allowed rs = [True, True] \<and> map remaining rs = [4, 4])"
    unfolding h sum.case by (intro allI conjI) (rule gap_two_requests, rule gap_two_limits)
  from general scenario show ?thesis
    by (rule conjI)
qed

theorem non_contiguous_window_carries_nothing_witness:
  "slidingWindow 5 1000 = Inr (slidingWindow_compute 5 1000)
   \<and> windowStart \<lparr>windowStart = 7000, count = 5, prevStart = 6000, prevCount = 5\<rparr>
        \<noteq> curWindowStart 1000 12000
   \<and> windowStart \<lparr>windowStart = 7000, count = 5, prevStart = 6000, prevCount = 5\<rparr>
        \<noteq> prevWindowStart 1000 12000
   \<and> slidingWindow_compute 5 1000
        (Some \<lparr>windowStart = 7000, count = 5, prevStart = 6000, prevCount = 5\<rparr>) 1 12000
       = (\<lparr>windowStart = 12000, count = 1, prevStart = 11000, prevCount = 0\<rparr>,
          \<lparr>allowed = True, limit = 5, remaining = 4, reset = 13, retryAfter = None\<rparr>,
          2000)"
proof -
  have h1: "slidingWindow 5 1000 = Inr (slidingWindow_compute 5 1000)"
    by (simp add: slidingWindow_def)
  have h2: "windowStart \<lparr>windowStart = 7000, count = 5, prevStart = 6000, prevCount = 5\<rparr>
        \<noteq> curWindowStart 1000 12000"
    by (simp add: curWindowStart_def)
  have h3: "windowStart \<lparr>windowStart = 7000, count = 5, prevStart = 6000, prevCount = 5\<rparr>
        \<noteq> prevWindowStart 1000 12000"
    by (simp add: curWindowStart_def prevWindowStart_def)
  note a = non_contiguous_window_carries_nothing [OF h1 h2 h3, of 1, THEN conjunct1]
  show ?thesis
    using h1 h2 h3 a
    by (simp add: slidingWindow_compute_def rollover_def effective_def curWindowStart_def
          prevWindowStart_def Let_def)
qed

text \<open>
  C8. Round trip and expiry of the memory store. \<^verbatim>\<open>save(k, s, ttlMs)\<close> at clock reading
  \<open>t_save\<close> never throws. A following \<^verbatim>\<open>load(k)\<close> at \<open>t_load\<close> returns \<open>s\<close> while
  \<open>t_load < t_save + ttlMs\<close>, and absent once \<open>t_save + ttlMs \<le> t_load\<close> (an entry is expired
  at the instant \<open>expiresAt\<close> itself). With \<open>ttlMs \<le> 0\<close> every load at a reading not
  before the save returns absent.
\<close>

theorem memory_store_round_trip:
  "\<exists>m1. save memoryStore k s ttlMs t_save m = Inr m1
      \<and> (t_load < t_save + ttlMs \<longrightarrow> (\<exists>m2. load memoryStore k t_load m1 = Inr (Some s, m2)))
      \<and> (t_save + ttlMs \<le> t_load \<longrightarrow> (\<exists>m2. load memoryStore k t_load m1 = Inr (None, m2)))
      \<and> (ttlMs \<le> 0 \<and> t_save \<le> t_load \<longrightarrow> (\<exists>m2. load memoryStore k t_load m1 = Inr (None, m2)))"
proof -
  let ?m1 = "memory_save k s ttlMs t_save m"
  have sv: "save memoryStore k s ttlMs t_save m = Inr ?m1"
    by (simp add: memoryStore_def)
  have lk: "?m1 k = Some \<lparr>state = s, expiresAt = t_save + ttlMs\<rparr>"
    by (rule memory_save_lookup)
  have fresh: "load memoryStore k t_load ?m1 = Inr (Some s, cleanup t_load ?m1)"
    if "t_load < t_save + ttlMs"
    using memory_load_fresh [where m = ?m1 and k = k and now = t_load, OF lk] that
    by (simp add: memoryStore_def)
  have gone: "load memoryStore k t_load ?m1 = Inr (None, cleanup t_load ?m1)"
    if "t_save + ttlMs \<le> t_load"
    using memory_load_expired [where m = ?m1 and k = k and now = t_load, OF lk] that
    by (simp add: memoryStore_def)
  have "ttlMs \<le> 0 \<and> t_save \<le> t_load \<longrightarrow> t_save + ttlMs \<le> t_load"
    by simp
  with sv fresh gone show ?thesis
    by blast
qed

theorem memory_store_round_trip_witness:
  "(5999::real) < 5000 + 1000
   \<and> (\<exists>m1. save memoryStore ''default:k'' (7::nat) 1000 5000 Map.empty = Inr m1
          \<and> (\<exists>m2. load memoryStore ''default:k'' 5999 m1 = Inr (Some 7, m2)))
   \<and> (5000::real) + 1000 \<le> 6000
   \<and> (\<exists>m1. save memoryStore ''default:k'' (7::nat) 1000 5000 Map.empty = Inr m1
          \<and> (\<exists>m2. load memoryStore ''default:k'' 6000 m1 = Inr (None, m2)))
   \<and> (-1::real) \<le> 0 \<and> (5000::real) \<le> 5000
   \<and> (\<exists>m1. save memoryStore ''default:k'' (7::nat) (-1) 5000 Map.empty = Inr m1
          \<and> (\<exists>m2. load memoryStore ''default:k'' 5000 m1 = Inr (None, m2)))"
proof -
  note a = memory_store_round_trip
             [where k = "''default:k''" and s = "7::nat" and ttlMs = 1000 and t_save = 5000
                and m = Map.empty and t_load = 5999]
  note b = memory_store_round_trip
             [where k = "''default:k''" and s = "7::nat" and ttlMs = 1000 and t_save = 5000
                and m = Map.empty and t_load = 6000]
  note c = memory_store_round_trip
             [where k = "''default:k''" and s = "7::nat" and ttlMs = "-1" and t_save = 5000
                and m = Map.empty and t_load = 5000]
  have a': "\<exists>m1. save memoryStore ''default:k'' (7::nat) 1000 5000 Map.empty = Inr m1
          \<and> (\<exists>m2. load memoryStore ''default:k'' 5999 m1 = Inr (Some 7, m2))"
    using a by simp
  have b': "\<exists>m1. save memoryStore ''default:k'' (7::nat) 1000 5000 Map.empty = Inr m1
          \<and> (\<exists>m2. load memoryStore ''default:k'' 6000 m1 = Inr (None, m2))"
    using b by simp
  have c': "\<exists>m1. save memoryStore ''default:k'' (7::nat) (-1) 5000 Map.empty = Inr m1
          \<and> (\<exists>m2. load memoryStore ''default:k'' 5000 m1 = Inr (None, m2))"
    using c by simp
  from a' b' c' show ?thesis
    by simp
qed

text \<open>
  C9 as stated fails twice: the empty configuration emits the standard headers, and with
  only the policy family on a decision that carries \<open>retryAfter = 5000\<close> gets the policy
  header and no \<open>Retry-After\<close>.
\<close>

theorem headers_counterexample:
  "build String_integer
     \<lparr>allowed = False, limit = 100, remaining = 0, reset = 1234567890,
      retryAfter = Some 5000, now_ms = 0\<rparr>
     None \<lparr>standard = None, legacy = None, policy = None\<rparr> ''RateLimit-Limit'' = Some ''100''
   \<and> retryAfter \<lparr>allowed = False, limit = 100, remaining = 0, reset = 1234567890,
      retryAfter = Some 5000, now_ms = 0\<rparr> = Some 5000
   \<and> or_default (policy \<lparr>standard = Some False, legacy = Some False, policy = Some True\<rparr>) False
   \<and> build String_integer
     \<lparr>allowed = False, limit = 100, remaining = 0, reset = 1234567890,
      retryAfter = Some 5000, now_ms = 0\<rparr>
     (Some ''100;w=60'') \<lparr>standard = Some False, legacy = Some False, policy = Some True\<rparr>
     ''RateLimit-Policy'' = Some ''100;w=60''
   \<and> build String_integer
     \<lparr>allowed = False, limit = 100, remaining = 0, reset = 1234567890,
      retryAfter = Some 5000, now_ms = 0\<rparr>
     (Some ''100;w=60'') \<lparr>standard = Some False, legacy = Some False, policy = Some True\<rparr>
     ''Retry-After'' = None"
  by (simp add: build_def or_default_def String_integer_eval)

text \<open>
  C9, as amended. A family that is off emits none of its headers: the standard family is
  off only when \<open>standard\<close> is \<open>false\<close>, the legacy and the policy family are off unless
  set to \<open>true\<close>. With all three off no header is emitted. The empty configuration
  \<^verbatim>\<open>{}\<close> takes the defaults, so the standard family is on and its three headers are
  emitted. When the decision carries a \<open>retryAfter\<close> and the standard or the legacy family
  is on, \<open>Retry-After\<close> is \<open>String(\<lceil>retryAfter / 1000\<rceil>)\<close>; with both off there is no
  \<open>Retry-After\<close>, whatever the policy family.
\<close>

theorem headers_by_family:
  "(\<not> or_default (standard opts) True \<longrightarrow>
      build str r pol opts ''RateLimit-Limit'' = None
      \<and> build str r pol opts ''RateLimit-Remaining'' = None
      \<and> build str r pol opts ''RateLimit-Reset'' = None)
   \<and> (\<not> or_default (legacy opts) False \<longrightarrow>
      build str r pol opts ''X-RateLimit-Limit'' = None
      \<and> build str r pol opts ''X-RateLimit-Remaining'' = None
      \<and> build str r pol opts ''X-RateLimit-Reset'' = None)
   \<and> (\<not> or_default (policy opts) False \<longrightarrow>
      build str r pol opts ''RateLimit-Policy'' = None)
   \<and> (\<not> or_default (standard opts) True \<and> \<not> or_default (legacy opts) False
        \<and> \<not> or_default (policy opts) False \<longrightarrow>
      build str r pol opts = Map.empty)
   \<and> (or_default (standard \<lparr>standard = None, legacy = None, policy = None\<rparr>) True
      \<and> build str r pol \<lparr>standard = None, legacy = None, policy = None\<rparr> ''RateLimit-Limit''
          = Some (str (limit r))
      \<and> build str r pol \<lparr>standard = None, legacy = None, policy = None\<rparr> ''RateLimit-Remaining''
          = Some (str (remaining r))
      \<and> build str r pol \<lparr>standard = None, legacy = None, policy = None\<rparr> ''RateLimit-Reset''
          = Some (str (reset r)))
   \<and> (retryAfter r = Some ra
        \<and> (or_default (standard opts) True \<or> or_default (legacy opts) False) \<longrightarrow>
      build str r pol opts ''Retry-After'' = Some (str (of_int \<lceil>ra / 1000\<rceil>)))
   \<and> (\<not> or_default (standard opts) True \<and> \<not> or_default (legacy opts) False \<longrightarrow>
      build str r pol opts ''Retry-After'' = None)"
proof -
  have dflt: "or_default (standard \<lparr>standard = None, legacy = None, policy = None\<rparr>) True"
    by (simp add: or_default_def)
  have retry: "build str r pol opts ''Retry-After'' = Some (str (of_int \<lceil>ra / 1000\<rceil>))"
    if "retryAfter r = Some ra"
      and "or_default (standard opts) True \<or> or_default (legacy opts) False"
    using build_retry_on [OF that(2), of str r pol] that(1) by simp
  show ?thesis
    using build_standard_off [of opts str r pol] build_legacy_off [of opts str r pol]
      build_policy_off [of opts str r pol] build_all_off [of opts str r pol]
      build_standard_on [OF dflt, of str r pol] build_retry_off [of opts str r pol]
      dflt retry
    by blast
qed

theorem headers_by_family_witness:
  "\<not> or_default (standard \<lparr>standard = Some False, legacy = Some False, policy = Some False\<rparr>) True
   \<and> \<not> or_default (legacy \<lparr>standard = Some False, legacy = Some False, policy = Some False\<rparr>) False
   \<and> \<not> or_default (policy \<lparr>standard = Some False, legacy = Some False, policy = Some False\<rparr>) False
   \<and> build String_integer
        \<lparr>allowed = True, limit = 100, remaining = 95, reset = 1234567890,
         retryAfter = None, now_ms = 0\<rparr>
        (Some ''100;w=60'') \<lparr>standard = Some False, legacy = Some False, policy = Some False\<rparr>
       = Map.empty
   \<and> retryAfter \<lparr>allowed = False, limit = 100, remaining = 0, reset = 1234567890,
         retryAfter = Some 1500, now_ms = 0\<rparr> = Some 1500
   \<and> or_default (legacy \<lparr>standard = Some False, legacy = Some True, policy = None\<rparr>) False
   \<and> build String_integer
        \<lparr>allowed = False, limit = 100, remaining = 0, reset = 1234567890,
         retryAfter = Some 1500, now_ms = 0\<rparr>
        None \<lparr>standard = Some False, legacy = Some True, policy = None\<rparr> ''Retry-After''
       = Some ''2''
   \<and> build String_integer
        \<lparr>allowed = False, limit = 100, remaining = 0, reset = 1234567890,
         retryAfter = Some 1500, now_ms = 0\<rparr>
        None \<lparr>standard = Some False, legacy = Some True, policy = None\<rparr> ''RateLimit-Limit''
       = None"
proof -
  note a = headers_by_family
      [where opts = "\<lparr>standard = Some False, legacy = Some False, policy = Some False\<rparr>"
         and str = String_integer and pol = "Some ''100;w=60''"
         and r = "\<lparr>allowed = True, limit = 100, remaining = 95, reset = 1234567890,
                   retryAfter = None, now_ms = 0\<rparr>"]
  note b = headers_by_family
      [where opts = "\<lparr>standard = Some False, legacy = Some True, policy = None\<rparr>"
         and str = String_integer and pol = None and ra = 1500
         and r = "\<lparr>allowed = False, limit = 100, remaining = 0, reset = 1234567890,
                   retryAfter = Some 1500, now_ms = 0\<rparr>"]
  have a': "build String_integer
        \<lparr>allowed = True, limit = 100, remaining = 95, reset = 1234567890,
         retryAfter = None, now_ms = 0\<rparr>
        (Some ''100;w=60'') \<lparr>standard = Some False, legacy = Some False, policy = Some False\<rparr>
       = Map.empty"
    using a by (simp add: or_default_def)
  have b': "build String_integer
        \<lparr>allowed = False, limit = 100, remaining = 0, reset = 1234567890,
         retryAfter = Some 1500, now_ms = 0\<rparr>
        None \<lparr>standard = Some False, legacy = Some True, policy = None\<rparr> ''Retry-After''
       = Some ''2''
     \<and> build String_integer
        \<lparr>allowed = False, limit = 100, remaining = 0, reset = 1234567890,
         retryAfter = Some 1500, now_ms = 0\<rparr>
        None \<lparr>standard = Some False, legacy = Some True, policy = None\<rparr> ''RateLimit-Limit''
       = None"
    using b by (simp add: or_default_def String_integer_eval)
  from a' b' show ?thesis
    by (simp add: or_default_def)
qed



end
